theory Spec2Isabelle
  imports Complex_Main "HOL-Library.Sublist"
begin

section \<open>Python strings\<close>

text \<open>
  Texts are \<^typ>\<open>string\<close>s, one \<^typ>\<open>char\<close> per character; the model covers
  ASCII text. \<open>isspace\<close> lists the ASCII characters that Python's \<open>str.split()\<close> and
  \<open>str.strip()\<close> treat as whitespace (tab, line feed, vertical tab, form feed, carriage
  return, the four separators 0x1C to 0x1F, and the space).
\<close>

definition newline :: char where
  "newline = CHR 0x0A"

definition isspace :: "char \<Rightarrow> bool" where
  "isspace c = (c \<in> set [CHR 0x09, CHR 0x0A, CHR 0x0B, CHR 0x0C, CHR 0x0D,
                           CHR 0x1C, CHR 0x1D, CHR 0x1E, CHR 0x1F, CHR 0x20])"

definition lower_char :: "char \<Rightarrow> char" where
  "lower_char c =
     (case map_of (zip ''ABCDEFGHIJKLMNOPQRSTUVWXYZ'' ''abcdefghijklmnopqrstuvwxyz'') c of
        None \<Rightarrow> c
      | Some d \<Rightarrow> d)"

definition lower :: "string \<Rightarrow> string" where
  "lower s = map lower_char s"

text \<open>\<open>s.split()\<close>: the maximal runs of non-whitespace characters, in order.\<close>

fun split_from :: "string \<Rightarrow> string \<Rightarrow> string list" where
  "split_from cur [] = (if cur = [] then [] else [cur])"
| "split_from cur (c # cs) =
     (if isspace c then (if cur = [] then split_from [] cs else cur # split_from [] cs)
      else split_from (cur @ [c]) cs)"

definition split :: "string \<Rightarrow> string list" where
  "split s = split_from [] s"

text \<open>\<open>sep.join(parts)\<close>.\<close>

fun join :: "string \<Rightarrow> string list \<Rightarrow> string" where
  "join sep [] = []"
| "join sep [w] = w"
| "join sep (w # v # ws) = w @ sep @ join sep (v # ws)"

text \<open>\<open>s.strip()\<close>.\<close>

definition strip :: "string \<Rightarrow> string" where
  "strip s = rev (dropWhile isspace (rev (dropWhile isspace s)))"

fun starts_with :: "string \<Rightarrow> string \<Rightarrow> bool" where
  "starts_with [] s = True"
| "starts_with (p # ps) [] = False"
| "starts_with (p # ps) (c # cs) = (p = c \<and> starts_with ps cs)"

section \<open>Regular-expression substitution\<close>

text \<open>
  \<open>re.sub(pattern, repl, text)\<close> scans \<open>text\<close> from the left. A matcher gives, for the
  text that starts at the current position, the replacement and the text left after the
  match, or \<open>None\<close> when the pattern does not match there. After a match the scan goes
  on behind it (the replacement is not scanned again); without one, the character is
  kept and the scan moves one position on. None of the patterns of \<open>_clean_text\<close>
  matches the empty string, so a match always leaves a shorter text; the scan treats a
  matcher result that is not shorter as no match.
\<close>

fun re_sub :: "(string \<Rightarrow> (string \<times> string) option) \<Rightarrow> string \<Rightarrow> string" where
  "re_sub m [] = []"
| "re_sub m (c # cs) =
     (case m (c # cs) of
        None \<Rightarrow> c # re_sub m cs
      | Some (rep, rest) \<Rightarrow>
          if length rest < length (c # cs) then rep @ re_sub m rest else c # re_sub m cs)"

text \<open>
  The URL pattern
  \<^verbatim>\<open>http[s]?://(?:[a-zA-Z]|[0-9]|[$-_@.&+]|[!*\\(\\),]|(?:%[0-9a-fA-F][0-9a-fA-F]))+\<close>.
  The class \<^verbatim>\<open>[$-_@.&+]\<close> holds the range from \<open>$\<close> (0x24) to \<open>_\<close> (0x5F) and the
  characters \<open>@ . & +\<close>; \<^verbatim>\<open>[!*\\(\\),]\<close> holds \<open>! * \ ( ) ,\<close>. The last alternative
  (a percent sign and two hexadecimal digits) only matches what three rounds of the
  earlier alternatives match as well, so the greedy repetition is the longest run of
  characters of the four classes.
\<close>

definition in_range :: "nat \<Rightarrow> nat \<Rightarrow> char \<Rightarrow> bool" where
  "in_range lo hi c = (lo \<le> of_char c \<and> (of_char c :: nat) \<le> hi)"

definition url_char :: "char \<Rightarrow> bool" where
  "url_char c =
     ((in_range 0x61 0x7A c \<or> in_range 0x41 0x5A c)
      \<or> in_range 0x30 0x39 c
      \<or> (in_range 0x24 0x5F c \<or> c \<in> set [CHR 0x40, CHR 0x2E, CHR 0x26, CHR 0x2B])
      \<or> c \<in> set [CHR 0x21, CHR 0x2A, CHR 0x5C, CHR 0x28, CHR 0x29, CHR 0x2C])"

definition match_url :: "string \<Rightarrow> (string \<times> string) option" where
  "match_url s =
     (if starts_with ''http'' s then
        (let r = drop 4 s;
             r' = (if starts_with ''s'' r then drop 1 r else r)
         in if starts_with ''://'' r' \<and> takeWhile url_char (drop 3 r') \<noteq> []
            then Some ([], dropWhile url_char (drop 3 r'))
            else None)
      else None)"

text \<open>
  \<^verbatim>\<open>/u/\w+\<close> and \<^verbatim>\<open>/r/\w+\<close>: the marker and the longest non-empty run of word
  characters (ASCII letters, digits and the underscore).
\<close>

definition word_char :: "char \<Rightarrow> bool" where
  "word_char c =
     (in_range 0x61 0x7A c \<or> in_range 0x41 0x5A c \<or> in_range 0x30 0x39 c \<or> c = CHR 0x5F)"

definition match_mention :: "string \<Rightarrow> string \<Rightarrow> (string \<times> string) option" where
  "match_mention marker s =
     (if starts_with marker s \<and> takeWhile word_char (drop (length marker) s) \<noteq> []
      then Some ([], dropWhile word_char (drop (length marker) s))
      else None)"

text \<open>
  \<^verbatim>\<open>\*\*(.*?)\*\*\<close>, \<^verbatim>\<open>\*(.*?)\*\<close> and \<^verbatim>\<open>~~(.*?)~~\<close>, each replaced by its group:
  after the opening delimiter the lazy group takes the shortest text, free of line feeds
  (\<open>.\<close> does not match one), that the closing delimiter follows.
\<close>

fun find_close :: "string \<Rightarrow> string \<Rightarrow> (string \<times> string) option" where
  "find_close d [] = None"
| "find_close d (c # cs) =
     (if starts_with d (c # cs) then Some ([], drop (length d) (c # cs))
      else if c = newline then None
      else (case find_close d cs of
              None \<Rightarrow> None
            | Some (body, rest) \<Rightarrow> Some (c # body, rest)))"

definition match_wrapped :: "string \<Rightarrow> string \<Rightarrow> (string \<times> string) option" where
  "match_wrapped d s = (if starts_with d s then find_close d (drop (length d) s) else None)"

text \<open>A literal pattern, replaced by a literal.\<close>

definition match_literal :: "string \<Rightarrow> string \<Rightarrow> string \<Rightarrow> (string \<times> string) option" where
  "match_literal pat rep s = (if starts_with pat s then Some (rep, drop (length pat) s) else None)"

section \<open>TextNormalizer: \<open>DataProcessor._clean_text\<close>\<close>

definition clean_text :: "string \<Rightarrow> string" where
  "clean_text text =
     (if text = [] then []
      else
        (let t1 = re_sub match_url text;
             t2 = re_sub (match_mention ''/u/'') t1;
             t3 = re_sub (match_mention ''/r/'') t2;
             t4 = re_sub (match_wrapped ''**'') t3;
             t5 = re_sub (match_wrapped ''*'') t4;
             t6 = re_sub (match_wrapped ''~~'') t5;
             t7 = re_sub (match_literal ''&gt;'' ''>'') t6;
             t8 = re_sub (match_literal ''&lt;'' ''<'') t7;
             t9 = re_sub (match_literal ''&amp;'' ''&'') t8;
             t10 = join '' '' (split t9)
         in strip t10))"

section \<open>ContentFilter: \<open>DataProcessor._is_valid_content\<close>\<close>

text \<open>
  The module \<open>config\<close> is not part of the sources: the two entries of
  \<open>PERSONA_CONFIG\<close> that the code reads are parameters.
\<close>

record persona_config =
  min_content_length :: int
  analyze_sentiment_enabled :: bool

definition is_valid_content :: "persona_config \<Rightarrow> string \<Rightarrow> bool" where
  "is_valid_content cfg text =
     (if text = [] then False
      else if int (length text) < min_content_length cfg then False
      else if lower text \<in> set [''[deleted]'', ''[removed]'', ''deleted'', ''removed''] then False
      else if length (split text) < 3 then False
      else True)"

section \<open>Activity items\<close>

text \<open>
  A fetched post or comment is a Python dictionary; the code reads every key with
  \<open>.get(key, default)\<close>, so each key of a raw item may be absent. A cleaned item has the
  keys \<open>_clean_post\<close> and \<open>_clean_comment\<close> write: \<open>title\<close>, \<open>num_comments\<close> and
  \<open>upvote_ratio\<close> for posts only, \<open>parent_post_title\<close> for comments only, \<open>sentiment\<close>
  when the configuration asks for it. Timestamps and ratios are real numbers, scores are
  integers.
\<close>

datatype item_type = Post | Comment

record raw_item =
  raw_id :: "string option"
  raw_title :: "string option"
  raw_content :: "string option"
  raw_subreddit :: "string option"
  raw_created_utc :: "real option"
  raw_score :: "int option"
  raw_num_comments :: "int option"
  raw_url :: "string option"
  raw_upvote_ratio :: "real option"
  raw_parent_post_title :: "string option"

record item =
  item_id :: "string option"
  title :: "string option"
  content :: string
  subreddit :: string
  created_utc :: real
  score :: int
  num_comments :: "int option"
  url :: string
  upvote_ratio :: "real option"
  parent_post_title :: "string option"
  item_type :: item_type
  sentiment :: "string option"

text \<open>\<open>d.get(key, default)\<close> on a key that may be absent.\<close>

definition dict_get :: "'a option \<Rightarrow> 'a \<Rightarrow> 'a" where
  "dict_get v dflt = (case v of None \<Rightarrow> dflt | Some x \<Rightarrow> x)"

text \<open>\<open>_analyze_sentiment\<close>: \<open>word in text_lower\<close> is a substring test.\<close>

definition analyze_sentiment :: "string \<Rightarrow> string" where
  "analyze_sentiment text =
     (let positive_words = [''good'', ''great'', ''amazing'', ''awesome'', ''love'', ''like'',
                            ''happy'', ''excellent''];
          negative_words = [''bad'', ''terrible'', ''awful'', ''hate'', ''dislike'', ''sad'',
                            ''angry'', ''frustrated''];
          text_lower = lower text;
          positive_count = length (filter (\<lambda>word. sublist word text_lower) positive_words);
          negative_count = length (filter (\<lambda>word. sublist word text_lower) negative_words)
      in if positive_count > negative_count then ''positive''
         else if negative_count > positive_count then ''negative''
         else ''neutral'')"

text \<open>
  \<open>_clean_post\<close> and \<open>_clean_comment\<close> return \<open>None\<close> when cleaning raises; on items of
  the types above nothing raises, so the result is always a cleaned item.
\<close>

definition clean_post :: "persona_config \<Rightarrow> raw_item \<Rightarrow> item option" where
  "clean_post cfg post =
     (let t = clean_text (dict_get (raw_title post) []);
          c = clean_text (dict_get (raw_content post) [])
      in Some \<lparr>item_id = raw_id post,
               title = Some t,
               content = c,
               subreddit = dict_get (raw_subreddit post) [],
               created_utc = dict_get (raw_created_utc post) 0,
               score = dict_get (raw_score post) 0,
               num_comments = Some (dict_get (raw_num_comments post) 0),
               url = dict_get (raw_url post) [],
               upvote_ratio = Some (dict_get (raw_upvote_ratio post) 0),
               parent_post_title = None,
               item_type = Post,
               sentiment = (if analyze_sentiment_enabled cfg
                            then Some (analyze_sentiment (t @ '' '' @ c)) else None)\<rparr>)"

definition clean_comment :: "persona_config \<Rightarrow> raw_item \<Rightarrow> item option" where
  "clean_comment cfg comment =
     (let c = clean_text (dict_get (raw_content comment) [])
      in Some \<lparr>item_id = raw_id comment,
               title = None,
               content = c,
               subreddit = dict_get (raw_subreddit comment) [],
               created_utc = dict_get (raw_created_utc comment) 0,
               score = dict_get (raw_score comment) 0,
               num_comments = None,
               url = dict_get (raw_url comment) [],
               upvote_ratio = None,
               parent_post_title = Some (dict_get (raw_parent_post_title comment) []),
               item_type = Comment,
               sentiment = (if analyze_sentiment_enabled cfg
                            then Some (analyze_sentiment c) else None)\<rparr>)"

section \<open>ActivityAggregator\<close>

text \<open>
  The loop of \<open>_process_posts\<close> and \<open>_process_comments\<close>: clean each raw item and keep it
  when cleaning gave an item whose content the filter accepts.
\<close>

fun keep_valid :: "persona_config \<Rightarrow> (raw_item \<Rightarrow> item option) \<Rightarrow> raw_item list \<Rightarrow> item list" where
  "keep_valid cfg clean [] = []"
| "keep_valid cfg clean (r # rs) =
     (case clean r of
        None \<Rightarrow> keep_valid cfg clean rs
      | Some cleaned \<Rightarrow>
          if is_valid_content cfg (content cleaned) then cleaned # keep_valid cfg clean rs
          else keep_valid cfg clean rs)"

text \<open>
  \<open>xs.sort(key=f, reverse=True)\<close> and \<open>sorted(xs, key=f, reverse=True)\<close>: CPython
  reverses the list, sorts it with its stable sort, and reverses the result, which keeps
  elements of equal key in their original order.
\<close>

definition sort_reverse :: "('a \<Rightarrow> 'k::linorder) \<Rightarrow> 'a list \<Rightarrow> 'a list" where
  "sort_reverse f xs = rev (sort_key f (rev xs))"

definition process_posts :: "persona_config \<Rightarrow> raw_item list \<Rightarrow> item list" where
  "process_posts cfg posts = sort_reverse created_utc (keep_valid cfg (clean_post cfg) posts)"

definition process_comments :: "persona_config \<Rightarrow> raw_item list \<Rightarrow> item list" where
  "process_comments cfg comments =
     sort_reverse created_utc (keep_valid cfg (clean_comment cfg) comments)"

subsection \<open>ActivityClassifier\<close>

definition categories :: "(string \<times> string list) list" where
  "categories =
     [(''technology'', [''programming'', ''technology'', ''coding'', ''python'', ''javascript'', ''webdev'']),
      (''gaming'', [''gaming'', ''games'', ''nintendo'', ''xbox'', ''playstation'', ''steam'']),
      (''lifestyle'', [''food'', ''cooking'', ''fitness'', ''fashion'', ''relationships'']),
      (''entertainment'', [''movies'', ''music'', ''television'', ''books'', ''netflix'']),
      (''news'', [''news'', ''worldnews'', ''politics'', ''coronavirus'']),
      (''educational'', [''askreddit'', ''explainlikeimfive'', ''todayilearned'', ''science'']),
      (''hobby'', [''diy'', ''crafts'', ''gardening'', ''photography'', ''art'']),
      (''sports'', [''sports'', ''soccer'', ''basketball'', ''football'', ''baseball'']),
      (''finance'', [''personalfinance'', ''investing'', ''cryptocurrency'', ''stocks'']),
      (''career'', [''jobs'', ''career'', ''cscareerquestions'', ''resumes''])]"

fun first_category :: "(string \<times> string list) list \<Rightarrow> string \<Rightarrow> string" where
  "first_category [] subreddit_lower = ''other''"
| "first_category ((category, keywords) # rest) subreddit_lower =
     (if list_ex (\<lambda>keyword. sublist keyword subreddit_lower) keywords then category
      else first_category rest subreddit_lower)"

definition categorize_subreddit :: "string \<Rightarrow> string" where
  "categorize_subreddit name = first_category categories (lower name)"

definition get_subreddit_description :: "string \<Rightarrow> string" where
  "get_subreddit_description name =
     (case map_of
        [(''programming'', ''Programming and software development discussions''),
         (''askreddit'', ''Ask and answer thought-provoking questions''),
         (''gaming'', ''General gaming discussions and news''),
         (''technology'', ''Technology news and discussions''),
         (''news'', ''Current news and events''),
         (''food'', ''Food, cooking, and recipes''),
         (''fitness'', ''Health, fitness, and exercise'')] (lower name) of
        Some d \<Rightarrow> d
      | None \<Rightarrow> ''Discussions about '' @ name)"

record subreddit_data =
  name :: string
  category :: string
  description :: string

definition process_subreddits :: "string list \<Rightarrow> subreddit_data list" where
  "process_subreddits subreddits =
     map (\<lambda>s. \<lparr>name = s, category = categorize_subreddit s,
                description = get_subreddit_description s\<rparr>)
         (filter (\<lambda>s. s \<noteq> []) subreddits)"

subsection \<open>Statistics\<close>

datatype py_error = ZeroDivisionError | Raised string

text \<open>\<open>a / b\<close>: true division raises on a zero divisor.\<close>

definition truediv :: "real \<Rightarrow> real \<Rightarrow> py_error + real" where
  "truediv a b = (if b = 0 then Inl ZeroDivisionError else Inr (a / b))"

record statistics =
  total_posts :: nat
  total_comments :: nat
  average_post_score :: real
  average_comment_score :: real
  top_subreddits :: "(string \<times> nat) list"
  most_active_subreddit :: "string option"
  subreddit_diversity :: nat
  content_length_avg :: real

text \<open>
  \<open>subreddit_activity\<close> is a dictionary, which keeps its keys in the order of their first
  insertion: an association list, a new key appended at the end, a known key updated in
  place. \<open>count_activity\<close> is
  \<open>subreddit_activity[subreddit] = subreddit_activity.get(subreddit, 0) + 1\<close>.
\<close>

fun count_activity :: "(string \<times> nat) list \<Rightarrow> string \<Rightarrow> (string \<times> nat) list" where
  "count_activity [] k = [(k, 0 + 1)]"
| "count_activity ((k', n) # d) k =
     (if k' = k then (k', n + 1) # d else (k', n) # count_activity d k)"

definition subreddit_activity :: "item list \<Rightarrow> item list \<Rightarrow> (string \<times> nat) list" where
  "subreddit_activity ps cs =
     foldl count_activity (foldl count_activity [] (map subreddit ps)) (map subreddit cs)"

text \<open>The loop of \<open>_calculate_average_content_length\<close> over \<open>(total_length, cnt)\<close>.\<close>

fun content_totals :: "nat \<times> nat \<Rightarrow> item list \<Rightarrow> nat \<times> nat" where
  "content_totals (total_length, cnt) [] = (total_length, cnt)"
| "content_totals (total_length, cnt) (i # items) =
     (if content i \<noteq> [] then content_totals (total_length + length (content i), cnt + 1) items
      else content_totals (total_length, cnt) items)"

definition calculate_average_content_length :: "item list \<Rightarrow> py_error + real" where
  "calculate_average_content_length items =
     (case content_totals (0, 0) items of
        (total_length, cnt) \<Rightarrow>
          if cnt > 0 then truediv (real total_length) (real cnt) else Inr 0)"

definition average :: "int list \<Rightarrow> py_error + real" where
  "average scores =
     (if scores \<noteq> [] then truediv (real_of_int (sum_list scores)) (real (length scores))
      else Inr 0)"

definition generate_statistics :: "item list \<Rightarrow> item list \<Rightarrow> py_error + statistics" where
  "generate_statistics ps cs =
     (let post_scores = map score ps;
          comment_scores = map score cs;
          activity = subreddit_activity ps cs;
          top = take 10 (sort_reverse snd activity)
      in case average post_scores of
           Inl e \<Rightarrow> Inl e
         | Inr avg_post \<Rightarrow>
             (case average comment_scores of
                Inl e \<Rightarrow> Inl e
              | Inr avg_comment \<Rightarrow>
                  (case calculate_average_content_length (ps @ cs) of
                     Inl e \<Rightarrow> Inl e
                   | Inr avg_len \<Rightarrow>
                       Inr \<lparr>total_posts = length ps,
                            total_comments = length cs,
                            average_post_score = avg_post,
                            average_comment_score = avg_comment,
                            top_subreddits = top,
                            most_active_subreddit =
                              (case top of [] \<Rightarrow> None | first # _ \<Rightarrow> Some (fst first)),
                            subreddit_diversity = length activity,
                            content_length_avg = avg_len\<rparr>)))"

subsection \<open>\<open>process_user_data\<close>\<close>

record raw_user_data =
  raw_username :: string
  raw_account_age_days :: real
  raw_post_karma :: int
  raw_comment_karma :: int
  raw_posts :: "raw_item list"
  raw_comments :: "raw_item list"
  raw_subreddits :: "string list"

record user_data =
  username :: string
  account_age_days :: real
  post_karma :: int
  comment_karma :: int
  posts :: "item list"
  comments :: "item list"
  subreddits :: "subreddit_data list"
  stats :: "statistics option"

definition process_user_data :: "persona_config \<Rightarrow> raw_user_data \<Rightarrow> py_error + user_data" where
  "process_user_data cfg raw =
     (let ps = process_posts cfg (raw_posts raw);
          cs = process_comments cfg (raw_comments raw);
          subs = process_subreddits (raw_subreddits raw)
      in case generate_statistics ps cs of
           Inl e \<Rightarrow> Inl e
         | Inr st \<Rightarrow>
             Inr \<lparr>username = raw_username raw,
                  account_age_days = raw_account_age_days raw,
                  post_karma = raw_post_karma raw,
                  comment_karma = raw_comment_karma raw,
                  posts = ps,
                  comments = cs,
                  subreddits = subs,
                  stats = Some st\<rparr>)"

section \<open>CitationGrounder: \<open>PersonaGenerator._extract_citations\<close>\<close>

text \<open>
  A citation is a new dictionary with copies of the source item's values. A citation of
  a comment has no \<open>title\<close> key.
\<close>

record citation =
  cit_type :: item_type
  cit_content :: string
  cit_title :: "string option"
  cit_url :: string
  cit_subreddit :: string

definition post_citation :: "item \<Rightarrow> citation" where
  "post_citation post =
     \<lparr>cit_type = Post,
      cit_content = content post,
      cit_title = Some (dict_get (title post) []),
      cit_url = url post,
      cit_subreddit = subreddit post\<rparr>"

definition comment_citation :: "item \<Rightarrow> citation" where
  "comment_citation comment =
     \<lparr>cit_type = Comment,
      cit_content = content comment,
      cit_title = None,
      cit_url = url comment,
      cit_subreddit = subreddit comment\<rparr>"

definition extract_citations :: "string \<Rightarrow> user_data \<Rightarrow> citation list" where
  "extract_citations analysis ud =
     (let all_content = map post_citation (posts ud) @ map comment_citation (comments ud)
      in take 5 all_content)"

section \<open>PersonaAssembler: \<open>PersonaGenerator\<close>\<close>

text \<open>
  What the generator takes from outside the sources is a parameter: the flag
  \<open>include_citations\<close>, the configuration, the five templates of \<open>PERSONA_PROMPTS\<close>
  (\<open>template.format(...)\<close> may raise), the text-generation backend, the clock, and the
  two renderings of Python's own that the document uses (\<open>{:.0f}\<close> of a float and
  \<open>str\<close> of a dictionary). The backend is asked once at each of six places in the code;
  \<open>chat_completion\<close> gives, for the place (the facet) and the request, the text of the
  response or the exception raised.
\<close>

datatype facet = Demographics | Personality | Interests | Behaviors | Motivations | Frustrations

record request =
  system_role :: string
  user_prompt :: string

record generator =
  include_citations :: bool
  config :: persona_config
  demographic_analysis :: "string \<Rightarrow> py_error + string"
  personality_analysis :: "string \<Rightarrow> py_error + string"
  interests_analysis :: "string \<Rightarrow> string \<Rightarrow> py_error + string"
  behavior_analysis :: "string \<Rightarrow> py_error + string"
  motivations_analysis :: "string \<Rightarrow> py_error + string"
  chat_completion :: "facet \<Rightarrow> request \<Rightarrow> py_error + string"
  now :: string
  format_0f :: "real \<Rightarrow> string"
  str_dict :: "subreddit_data \<Rightarrow> string"

text \<open>\<open>str\<close> of a natural number and of an integer.\<close>

function str_nat :: "nat \<Rightarrow> string" where
  "str_nat n =
     (if n < 10 then [''0123456789'' ! n]
      else str_nat (n div 10) @ [''0123456789'' ! (n mod 10)])"
  by pat_completeness auto
termination
  by (relation "measure id") auto

definition str_int :: "int \<Rightarrow> string" where
  "str_int i = (if i < 0 then CHR ''-'' # str_nat (nat (- i)) else str_nat (nat i))"

subsection \<open>Evidence text\<close>

definition post_parts :: "persona_config \<Rightarrow> item \<Rightarrow> string list" where
  "post_parts cfg post =
     (if dict_get (title post) [] \<noteq> [] then [''POST TITLE: '' @ dict_get (title post) []] else [])
     @ (if content post \<noteq> [] \<and> int (length (content post)) > min_content_length cfg
        then [''POST CONTENT: '' @ content post] else [])"

definition comment_parts :: "persona_config \<Rightarrow> item \<Rightarrow> string list" where
  "comment_parts cfg comment =
     (if content comment \<noteq> [] \<and> int (length (content comment)) > min_content_length cfg
      then [''COMMENT: '' @ content comment] else [])"

definition extract_content_for_analysis :: "persona_config \<Rightarrow> user_data \<Rightarrow> string" where
  "extract_content_for_analysis cfg ud =
     join [newline, newline]
       (concat (map (post_parts cfg) (posts ud)) @ concat (map (comment_parts cfg) (comments ud)))"

subsection \<open>Basic information\<close>

record basic_info =
  bi_username :: string
  bi_account_age_days :: real
  bi_total_posts :: nat
  bi_total_comments :: nat
  bi_post_karma :: int
  bi_comment_karma :: int
  bi_active_subreddits :: "string list"

text \<open>
  The subreddits of the processed data are dictionaries, so \<open>_generate_basic_info\<close>
  lists \<open>str\<close> of each.
\<close>

definition generate_basic_info :: "generator \<Rightarrow> user_data \<Rightarrow> basic_info" where
  "generate_basic_info g ud =
     \<lparr>bi_username = username ud,
      bi_account_age_days = account_age_days ud,
      bi_total_posts = length (posts ud),
      bi_total_comments = length (comments ud),
      bi_post_karma = post_karma ud,
      bi_comment_karma = comment_karma ud,
      bi_active_subreddits = map (str_dict g) (subreddits ud)\<rparr>"

subsection \<open>The six facets\<close>

record facet_result =
  analysis :: string
  citations :: "citation list"

text \<open>
  Each \<open>_analyze_...\<close> method has the same body after its prompt: inside one \<open>try\<close>, build
  the prompt, ask the backend, ground the citations; on any exception return the
  facet's fallback text and no citations. The second component lists the requests sent
  to the backend.
\<close>

definition ask_backend ::
  "generator \<Rightarrow> facet \<Rightarrow> string \<Rightarrow> py_error + string \<Rightarrow> string \<Rightarrow> user_data
     \<Rightarrow> facet_result \<times> (facet \<times> request) list" where
  "ask_backend g f role prompt fallback ud =
     (case prompt of
        Inl e \<Rightarrow> (\<lparr>analysis = fallback, citations = []\<rparr>, [])
      | Inr p \<Rightarrow>
          (let req = \<lparr>system_role = role, user_prompt = p\<rparr> in
           case chat_completion g f req of
             Inl e \<Rightarrow> (\<lparr>analysis = fallback, citations = []\<rparr>, [(f, req)])
           | Inr a \<Rightarrow>
               (\<lparr>analysis = a,
                 citations = (if include_citations g then extract_citations a ud else [])\<rparr>,
                [(f, req)])))"

definition demographics_role :: string where
  "demographics_role = ''You are an expert at analyzing text to identify demographic information. Be conservative in your estimates and only make claims based on clear evidence.''"

definition personality_role :: string where
  "personality_role = ''You are an expert at analyzing writing style and communication patterns to identify personality traits. Focus on observable behaviors and communication patterns.''"

definition interests_role :: string where
  "interests_role = ''You are an expert at identifying interests and hobbies from online activity. Consider both explicit mentions and implicit interests shown through participation.''"

definition behaviors_role :: string where
  "behaviors_role = ''You are an expert at analyzing behavioral patterns from online activity. Focus on observable patterns in posting, engagement, and interaction styles.''"

definition motivations_role :: string where
  "motivations_role = ''You are an expert at identifying underlying motivations and goals from online behavior. Look for patterns that reveal what drives the person.''"

definition frustrations_role :: string where
  "frustrations_role = ''You are an expert at identifying frustrations and pain points from online communication. Focus on explicit complaints and recurring negative themes.''"

definition analyze_demographics ::
  "generator \<Rightarrow> string \<Rightarrow> user_data \<Rightarrow> facet_result \<times> (facet \<times> request) list" where
  "analyze_demographics g text ud =
     ask_backend g Demographics demographics_role (demographic_analysis g (take 3000 text))
       ''Unable to analyze demographics'' ud"

definition analyze_personality ::
  "generator \<Rightarrow> string \<Rightarrow> user_data \<Rightarrow> facet_result \<times> (facet \<times> request) list" where
  "analyze_personality g text ud =
     ask_backend g Personality personality_role (personality_analysis g (take 3000 text))
       ''Unable to analyze personality'' ud"

definition analyze_interests ::
  "generator \<Rightarrow> string \<Rightarrow> user_data \<Rightarrow> facet_result \<times> (facet \<times> request) list" where
  "analyze_interests g text ud =
     (let subs = (if subreddits ud \<noteq> [] then join '', '' (map name (subreddits ud))
                  else ''None'')
      in ask_backend g Interests interests_role (interests_analysis g (take 3000 text) subs)
           ''Unable to analyze interests'' ud)"

definition analyze_behaviors ::
  "generator \<Rightarrow> string \<Rightarrow> user_data \<Rightarrow> facet_result \<times> (facet \<times> request) list" where
  "analyze_behaviors g text ud =
     ask_backend g Behaviors behaviors_role (behavior_analysis g (take 3000 text))
       ''Unable to analyze behaviors'' ud"

definition analyze_motivations ::
  "generator \<Rightarrow> string \<Rightarrow> user_data \<Rightarrow> facet_result \<times> (facet \<times> request) list" where
  "analyze_motivations g text ud =
     ask_backend g Motivations motivations_role (motivations_analysis g (take 3000 text))
       ''Unable to analyze motivations'' ud"

definition line :: "string \<Rightarrow> string" where
  "line s = s @ [newline]"

definition frustrations_prompt :: "string \<Rightarrow> string" where
  "frustrations_prompt text =
     concat
       [line [],
        line ''            Analyze the following Reddit posts and comments to identify frustrations, complaints, and pain points expressed by the user.'',
        line ''            Look for:'',
        line ''            - Explicit complaints or frustrations'',
        line ''            - Recurring problems they face'',
        line ''            - Things that annoy or bother them'',
        line (''            - Challenges they'' @ [CHR 0x27] @ ''re trying to overcome''),
        line ''            - Negative experiences they share'',
        line ''            '',
        line (''            Content: '' @ text),
        ''            '']"

definition analyze_frustrations ::
  "generator \<Rightarrow> string \<Rightarrow> user_data \<Rightarrow> facet_result \<times> (facet \<times> request) list" where
  "analyze_frustrations g text ud =
     ask_backend g Frustrations frustrations_role (Inr (frustrations_prompt (take 3000 text)))
       ''Unable to analyze frustrations'' ud"

subsection \<open>The document\<close>

record sections =
  sec_basic_info :: basic_info
  sec_demographics :: facet_result
  sec_personality :: facet_result
  sec_interests :: facet_result
  sec_behaviors :: facet_result
  sec_motivations :: facet_result
  sec_frustrations :: facet_result

definition banner :: "string \<Rightarrow> string" where
  "banner heading = line (replicate 80 CHR ''='') @ line heading @ line (replicate 80 CHR ''='')"

definition header_block :: "generator \<Rightarrow> user_data \<Rightarrow> string" where
  "header_block g ud =
     line [] @ banner (''USER PERSONA: '' @ username ud) @ line []
     @ line (''Generated on: '' @ now g)
     @ line (''Analysis based on '' @ str_nat (length (posts ud)) @ '' posts and ''
             @ str_nat (length (comments ud)) @ '' comments'')
     @ line []"

definition basic_info_block :: "generator \<Rightarrow> basic_info \<Rightarrow> string" where
  "basic_info_block g b =
     (let subreddits_str =
            (if bi_active_subreddits b \<noteq> [] then join '', '' (take 10 (bi_active_subreddits b))
             else ''None'')
      in banner ''BASIC INFORMATION'' @ line []
         @ line (''Username: '' @ bi_username b)
         @ line (''Account Age: '' @ format_0f g (bi_account_age_days b) @ '' days'')
         @ line (''Total Posts: '' @ str_nat (bi_total_posts b))
         @ line (''Total Comments: '' @ str_nat (bi_total_comments b))
         @ line (''Post Karma: '' @ str_int (bi_post_karma b))
         @ line (''Comment Karma: '' @ str_int (bi_comment_karma b))
         @ line (''Active Subreddits: '' @ subreddits_str)
         @ line [])"

definition facet_section :: "string \<Rightarrow> facet_result \<Rightarrow> string" where
  "facet_section heading r = banner heading @ line [] @ line (analysis r) @ line []"

definition upper_char :: "char \<Rightarrow> char" where
  "upper_char c =
     (case map_of (zip ''abcdefghijklmnopqrstuvwxyz'' ''ABCDEFGHIJKLMNOPQRSTUVWXYZ'') c of
        None \<Rightarrow> c
      | Some d \<Rightarrow> d)"

definition type_name :: "item_type \<Rightarrow> string" where
  "type_name t = (case t of Post \<Rightarrow> ''post'' | Comment \<Rightarrow> ''comment'')"

definition citation_entry :: "nat \<Rightarrow> citation \<Rightarrow> string" where
  "citation_entry i c =
     line (str_nat i @ ''. '' @ map upper_char (type_name (cit_type c)) @ '': ''
           @ (case cit_title c of Some t \<Rightarrow> t | None \<Rightarrow> take 100 (cit_content c)) @ ''...'')
     @ line (''   URL: '' @ cit_url c)
     @ line (''   Subreddit: r/'' @ cit_subreddit c)
     @ line []"

fun citation_entries :: "nat \<Rightarrow> citation list \<Rightarrow> string" where
  "citation_entries i [] = []"
| "citation_entries i (c # cs) = citation_entry i c @ citation_entries (i + 1) cs"

definition citations_block :: "generator \<Rightarrow> sections \<Rightarrow> string" where
  "citations_block g secs =
     (if include_citations g then
        line [] @ banner ''CITATIONS & SOURCES'' @ line []
        @ line ''The following sources were used to generate this persona:''
        @ line []
        @ citation_entries 1 (take 5 (citations (sec_demographics secs)))
      else [])"

definition disclaimer_block :: "generator \<Rightarrow> string" where
  "disclaimer_block g =
     line [] @ banner ''DISCLAIMER'' @ line []
     @ line ''This persona is generated based on publicly available Reddit activity and should be ''
     @ line ''used for research and educational purposes only. The analysis represents patterns ''
     @ line (''observed in the user'' @ [CHR 0x27] @ ''s online behavior and may not reflect their complete personality '')
     @ line ''or circumstances.''
     @ line []
     @ line (''Generation completed at: '' @ now g)"

definition format_persona :: "generator \<Rightarrow> sections \<Rightarrow> user_data \<Rightarrow> string" where
  "format_persona g secs ud =
     header_block g ud
     @ basic_info_block g (sec_basic_info secs)
     @ facet_section ''DEMOGRAPHICS'' (sec_demographics secs)
     @ facet_section ''PERSONALITY TRAITS'' (sec_personality secs)
     @ facet_section ''INTERESTS & HOBBIES'' (sec_interests secs)
     @ facet_section ''BEHAVIORS & HABITS'' (sec_behaviors secs)
     @ facet_section ''MOTIVATIONS & GOALS'' (sec_motivations secs)
     @ facet_section ''FRUSTRATIONS & PAIN POINTS'' (sec_frustrations secs)
     @ citations_block g secs
     @ disclaimer_block g"

subsection \<open>\<open>generate_persona\<close>\<close>

text \<open>
  \<open>persona_sections\<close> gives the sections of a run and the requests sent to the backend,
  in the order of the calls; \<open>generate_persona\<close> returns the text and the requests.
\<close>

definition persona_sections ::
  "generator \<Rightarrow> string \<Rightarrow> user_data \<Rightarrow> sections \<times> (facet \<times> request) list" where
  "persona_sections g text ud =
     (let b = generate_basic_info g ud;
          (d, calls1) = analyze_demographics g text ud;
          (p, calls2) = analyze_personality g text ud;
          (i, calls3) = analyze_interests g text ud;
          (h, calls4) = analyze_behaviors g text ud;
          (m, calls5) = analyze_motivations g text ud;
          (f, calls6) = analyze_frustrations g text ud
      in (\<lparr>sec_basic_info = b, sec_demographics = d, sec_personality = p, sec_interests = i,
           sec_behaviors = h, sec_motivations = m, sec_frustrations = f\<rparr>,
          calls1 @ calls2 @ calls3 @ calls4 @ calls5 @ calls6))"

definition generate_persona :: "generator \<Rightarrow> user_data \<Rightarrow> string \<times> (facet \<times> request) list" where
  "generate_persona g ud =
     (let text = extract_content_for_analysis (config g) ud
      in if text = [] then (''Unable to generate persona: No content available'', [])
         else (case persona_sections g text ud of
                 (secs, calls) \<Rightarrow> (format_persona g secs ud, calls)))"

section \<open>The end-to-end scenario of the specification\<close>

text \<open>
  Two posts (timestamps 200 and 100, the second one deleted) and one comment (timestamp
  150), with a minimum content length of 10; a generator whose templates put the
  evidence text behind a label and whose backend fails for the personality facet only.
\<close>

definition blank_item :: raw_item where
  "blank_item =
     \<lparr>raw_id = None, raw_title = None, raw_content = None, raw_subreddit = None,
      raw_created_utc = None, raw_score = None, raw_num_comments = None, raw_url = None,
      raw_upvote_ratio = None, raw_parent_post_title = None\<rparr>"

definition scenario_config :: persona_config where
  "scenario_config = \<lparr>min_content_length = 10, analyze_sentiment_enabled = False\<rparr>"

definition scenario_raw :: raw_user_data where
  "scenario_raw =
     \<lparr>raw_username = ''alice'',
      raw_account_age_days = 400,
      raw_post_karma = 12,
      raw_comment_karma = -3,
      raw_posts =
        [blank_item\<lparr>raw_id := Some ''p1'', raw_title := Some ''My apps'',
           raw_content := Some ''I love programming in python and building cool apps'',
           raw_subreddit := Some ''python'', raw_created_utc := Some 200,
           raw_score := Some 7, raw_url := Some ''u1''\<rparr>,
         blank_item\<lparr>raw_id := Some ''p2'', raw_title := Some ''Gone'',
           raw_content := Some ''[deleted]'',
           raw_subreddit := Some ''python'', raw_created_utc := Some 100,
           raw_score := Some 1, raw_url := Some ''u2''\<rparr>],
      raw_comments =
        [blank_item\<lparr>raw_id := Some ''c1'',
           raw_content := Some ''This is a great community honestly'',
           raw_subreddit := Some ''python'', raw_created_utc := Some 150,
           raw_score := Some 2, raw_url := Some ''u3''\<rparr>],
      raw_subreddits = [''python'']\<rparr>"

definition scenario_post :: item where
  "scenario_post =
     \<lparr>item_id = Some ''p1'', title = Some ''My apps'',
      content = ''I love programming in python and building cool apps'',
      subreddit = ''python'', created_utc = 200, score = 7, num_comments = Some 0,
      url = ''u1'', upvote_ratio = Some 0, parent_post_title = None, item_type = Post,
      sentiment = None\<rparr>"

definition scenario_comment :: item where
  "scenario_comment =
     \<lparr>item_id = Some ''c1'', title = None,
      content = ''This is a great community honestly'',
      subreddit = ''python'', created_utc = 150, score = 2, num_comments = None,
      url = ''u3'', upvote_ratio = None, parent_post_title = Some [], item_type = Comment,
      sentiment = None\<rparr>"

definition scenario_corpus :: user_data where
  "scenario_corpus =
     \<lparr>username = ''alice'', account_age_days = 400, post_karma = 12, comment_karma = -3,
      posts = [scenario_post], comments = [scenario_comment],
      subreddits = [\<lparr>name = ''python'', category = ''technology'',
                     description = ''Discussions about python''\<rparr>],
      stats = None\<rparr>"

definition empty_corpus :: user_data where
  "empty_corpus = scenario_corpus\<lparr>posts := [], comments := []\<rparr>"

definition scenario_generator :: generator where
  "scenario_generator =
     \<lparr>include_citations = True,
      config = scenario_config,
      demographic_analysis = (\<lambda>text. Inr (''Demographics of: '' @ text)),
      personality_analysis = (\<lambda>text. Inr (''Personality of: '' @ text)),
      interests_analysis = (\<lambda>text subs. Inr (''Interests of: '' @ text @ subs)),
      behavior_analysis = (\<lambda>text. Inr (''Behaviors of: '' @ text)),
      motivations_analysis = (\<lambda>text. Inr (''Motivations of: '' @ text)),
      chat_completion =
        (\<lambda>f r. if f = Personality then Inl (Raised ''rate limit'') else Inr ''Likely a developer.''),
      now = ''2024-01-01 00:00:00'',
      format_0f = (\<lambda>x. str_int (round x)),
      str_dict = name\<rparr>"

section \<open>Properties\<close>



text \<open>Newest first: every item is at least as new as the items behind it.\<close>

definition descending :: "('a \<Rightarrow> 'k::linorder) \<Rightarrow> 'a list \<Rightarrow> bool" where
  "descending f xs = sorted_wrt (\<lambda>a b. f b \<le> f a) xs"

text \<open>The distinct elements of a list, in the order of their first occurrences.\<close>

definition first_seen :: "'a list \<Rightarrow> 'a list" where
  "first_seen xs = rev (remdups (rev xs))"

text \<open>The tags of the corpus in counting order, and each distinct tag with its count.\<close>

definition corpus_tags :: "item list \<Rightarrow> item list \<Rightarrow> string list" where
  "corpus_tags ps cs = map subreddit ps @ map subreddit cs"

definition histogram :: "string list \<Rightarrow> (string \<times> nat) list" where
  "histogram tags = map (\<lambda>t. (t, count_list tags t)) (first_seen tags)"

text \<open>A citation as a copy of an item: its kind, body, title, URL and tag.\<close>

definition citation_of :: "item \<Rightarrow> citation" where
  "citation_of i =
     \<lparr>cit_type = item_type i, cit_content = content i, cit_title = title i,
      cit_url = url i, cit_subreddit = subreddit i\<rparr>"

text \<open>
  A corpus as the aggregator builds it: posts are of type post and have a title,
  comments are of type comment and have none.
\<close>

definition well_formed_corpus :: "user_data \<Rightarrow> bool" where
  "well_formed_corpus ud =
     (list_all (\<lambda>p. item_type p = Post \<and> title p \<noteq> None) (posts ud)
      \<and> list_all (\<lambda>c. item_type c = Comment \<and> title c = None) (comments ud))"

text \<open>
  The six facets in their declared order, each with its heading in the document, its
  fallback text and its place among the sections.
\<close>

definition all_facets :: "facet list" where
  "all_facets = [Demographics, Personality, Interests, Behaviors, Motivations, Frustrations]"

definition facet_heading :: "facet \<Rightarrow> string" where
  "facet_heading f =
     (case f of
        Demographics \<Rightarrow> ''DEMOGRAPHICS''
      | Personality \<Rightarrow> ''PERSONALITY TRAITS''
      | Interests \<Rightarrow> ''INTERESTS & HOBBIES''
      | Behaviors \<Rightarrow> ''BEHAVIORS & HABITS''
      | Motivations \<Rightarrow> ''MOTIVATIONS & GOALS''
      | Frustrations \<Rightarrow> ''FRUSTRATIONS & PAIN POINTS'')"

definition fallback_text :: "facet \<Rightarrow> string" where
  "fallback_text f =
     (case f of
        Demographics \<Rightarrow> ''Unable to analyze demographics''
      | Personality \<Rightarrow> ''Unable to analyze personality''
      | Interests \<Rightarrow> ''Unable to analyze interests''
      | Behaviors \<Rightarrow> ''Unable to analyze behaviors''
      | Motivations \<Rightarrow> ''Unable to analyze motivations''
      | Frustrations \<Rightarrow> ''Unable to analyze frustrations'')"

definition section_of :: "facet \<Rightarrow> sections \<Rightarrow> facet_result" where
  "section_of f secs =
     (case f of
        Demographics \<Rightarrow> sec_demographics secs
      | Personality \<Rightarrow> sec_personality secs
      | Interests \<Rightarrow> sec_interests secs
      | Behaviors \<Rightarrow> sec_behaviors secs
      | Motivations \<Rightarrow> sec_motivations secs
      | Frustrations \<Rightarrow> sec_frustrations secs)"

text \<open>
  A complete document: it contains the header, the basic-info block, for each of the
  six facets the section with its heading and its analysis, and the disclaimer.
\<close>

definition complete_document :: "generator \<Rightarrow> user_data \<Rightarrow> sections \<Rightarrow> string \<Rightarrow> bool" where
  "complete_document g ud secs doc =
     (sublist (header_block g ud) doc
      \<and> sublist (basic_info_block g (generate_basic_info g ud)) doc
      \<and> list_all (\<lambda>f. sublist (facet_section (facet_heading f) (section_of f secs)) doc) all_facets
      \<and> sublist (disclaimer_block g) doc)"

text \<open>
  A facet is served when the backend was asked for it or its section is the fallback:
  the fallback text and no citations.
\<close>

definition served :: "(facet \<times> request) list \<Rightarrow> sections \<Rightarrow> facet \<Rightarrow> bool" where
  "served calls secs f =
     (f \<in> set (map fst calls)
      \<or> section_of f secs = \<lparr>analysis = fallback_text f, citations = []\<rparr>)"

section \<open>The content filter\<close>


lemma is_valid_content_examples:
  "is_valid_content scenario_config ''[DELETED]'' = False"
  "is_valid_content scenario_config ''too short'' = False"
  "is_valid_content scenario_config ''onlytwo wordshere'' = False"
  "is_valid_content scenario_config ''This is a great community honestly'' = True"
  by (simp_all add: is_valid_content_def scenario_config_def lower_def lower_char_def
      split_def isspace_def)

section \<open>The text normalizer\<close>

text \<open>
  Every match of the nine patterns leaves a shorter text, so the scan of \<open>re_sub\<close>
  always goes on behind the match.
\<close>

lemma starts_with_length: "starts_with p s \<Longrightarrow> length p \<le> length s"
  by (induction p s rule: starts_with.induct) auto

lemma find_close_length: "find_close d s = Some (body, rest) \<Longrightarrow> length rest \<le> length s"
  by (induction s arbitrary: body) (auto split: if_splits option.splits)

lemma match_url_shorter: "match_url s = Some (rep, rest) \<Longrightarrow> length rest < length s"
proof -
  assume a: "match_url s = Some (rep, rest)"
  then have h: "starts_with ''http'' s"
    by (auto simp: match_url_def split: if_splits)
  from a obtain r where "rest = dropWhile url_char r" and "length r \<le> length s - 4"
    by (auto simp: match_url_def Let_def split: if_splits)
  moreover have "length (dropWhile url_char r) \<le> length r"
    by (rule length_dropWhile_le)
  moreover have "4 \<le> length s"
    using starts_with_length [OF h] by simp
  ultimately show ?thesis by simp
qed

lemma match_mention_shorter:
  "marker \<noteq> [] \<Longrightarrow> match_mention marker s = Some (rep, rest) \<Longrightarrow> length rest < length s"
proof -
  assume m: "marker \<noteq> []" and a: "match_mention marker s = Some (rep, rest)"
  then have h: "starts_with marker s" and r: "rest = dropWhile word_char (drop (length marker) s)"
    by (auto simp: match_mention_def split: if_splits)
  have "length rest \<le> length s - length marker"
    unfolding r using length_dropWhile_le [of word_char "drop (length marker) s"] by simp
  moreover have "length marker \<le> length s"
    using starts_with_length [OF h] .
  ultimately show ?thesis using m by (cases marker) simp_all
qed

lemma match_wrapped_shorter:
  "d \<noteq> [] \<Longrightarrow> match_wrapped d s = Some (rep, rest) \<Longrightarrow> length rest < length s"
proof -
  assume m: "d \<noteq> []" and a: "match_wrapped d s = Some (rep, rest)"
  then have h: "starts_with d s" and r: "find_close d (drop (length d) s) = Some (rep, rest)"
    by (auto simp: match_wrapped_def split: if_splits)
  have "length rest \<le> length s - length d"
    using find_close_length [OF r] by simp
  moreover have "length d \<le> length s"
    using starts_with_length [OF h] .
  ultimately show ?thesis using m by (cases d) simp_all
qed

lemma match_literal_shorter:
  "pat \<noteq> [] \<Longrightarrow> match_literal pat r s = Some (rep, rest) \<Longrightarrow> length rest < length s"
proof -
  assume m: "pat \<noteq> []" and a: "match_literal pat r s = Some (rep, rest)"
  then have h: "starts_with pat s" and r: "rest = drop (length pat) s"
    by (auto simp: match_literal_def split: if_splits)
  have "length pat \<le> length s"
    using starts_with_length [OF h] .
  then show ?thesis using m by (cases pat) (simp_all add: r)
qed

lemma re_sub_match:
  "m (c # cs) = Some (rep, rest) \<Longrightarrow> length rest < length (c # cs) \<Longrightarrow>
   re_sub m (c # cs) = rep @ re_sub m rest"
  by simp

lemma clean_text_example:
  "clean_text ''check **this** out http://x.co /u/bob'' = ''check this out''"
  by code_simp




















section \<open>Aggregation order\<close>

lemma sort_reverse_descending: "descending f (sort_reverse f xs)"
proof -
  have "sorted (map f (sort_key f (rev xs)))" by (rule sorted_sort_key)
  then have "sorted_wrt (\<lambda>a b. f a \<le> f b) (sort_key f (rev xs))"
    by (simp add: sorted_map)
  then show ?thesis
    by (simp add: descending_def sort_reverse_def sorted_wrt_rev)
qed

lemma sort_reverse_stable:
  "filter (\<lambda>x. f x = k) (sort_reverse f xs) = filter (\<lambda>x. f x = k) xs"
proof -
  have "filter (\<lambda>x. f x = k) (sort_reverse f xs)
          = rev (filter (\<lambda>x. f x = k) (sort_key f (rev xs)))"
    by (simp add: sort_reverse_def rev_filter)
  also have "\<dots> = rev (filter (\<lambda>x. f x = k) (rev xs))"
    by (simp only: sort_key_stable)
  also have "\<dots> = filter (\<lambda>x. f x = k) xs"
    by (simp add: rev_filter)
  finally show ?thesis .
qed

lemma set_sort_reverse: "set (sort_reverse f xs) = set xs"
  by (simp add: sort_reverse_def)

lemma length_sort_reverse: "length (sort_reverse f xs) = length xs"
  by (simp add: sort_reverse_def)


text \<open>
  The scenario: the deleted post is dropped, one post and one comment survive, and the
  tag they share is the most active one.
\<close>

lemma scenario_processed:
  "process_user_data scenario_config scenario_raw =
     Inr (scenario_corpus\<lparr>stats := Some
       \<lparr>total_posts = 1, total_comments = 1, average_post_score = 7,
        average_comment_score = 2, top_subreddits = [(''python'', 2)],
        most_active_subreddit = Some ''python'', subreddit_diversity = 1,
        content_length_avg = 85 / 2\<rparr>\<rparr>)"
  by code_simp

section \<open>Statistics\<close>

lemma average_total: "\<exists>a. average scores = Inr a"
  by (cases scores) (simp_all add: average_def truediv_def)

lemma calculate_average_content_length_total:
  "\<exists>a. calculate_average_content_length items = Inr a"
  by (auto simp: calculate_average_content_length_def truediv_def split: prod.splits)

lemma generate_statistics_total: "\<exists>st. generate_statistics ps cs = Inr st"
proof -
  obtain a where a: "average (map score ps) = Inr a" using average_total by blast
  obtain b where b: "average (map score cs) = Inr b" using average_total by blast
  obtain c where c: "calculate_average_content_length (ps @ cs) = Inr c"
    using calculate_average_content_length_total by blast
  show ?thesis by (simp add: generate_statistics_def Let_def a b c)
qed

text \<open>
  Claim C5. On the empty corpus the statistics have \<open>total_posts = 0\<close>,
  \<open>total_comments = 0\<close> and the three means equal to 0; and no division of the
  statistics computation raises: on every corpus the two score means, the mean content
  length and the statistics as a whole are values, never \<open>ZeroDivisionError\<close>.
\<close>

theorem statistics_empty_corpus_zero:
  "(\<exists>st. generate_statistics [] [] = Inr st
        \<and> total_posts st = 0 \<and> total_comments st = 0
        \<and> average_post_score st = 0 \<and> average_comment_score st = 0
        \<and> content_length_avg st = 0)
   \<and> (\<exists>st. generate_statistics ps cs = Inr st)
   \<and> (\<exists>a. average scores = Inr a)
   \<and> (\<exists>a. calculate_average_content_length items = Inr a)"
proof (intro conjI)
  show "\<exists>st. generate_statistics [] [] = Inr st
        \<and> total_posts st = 0 \<and> total_comments st = 0
        \<and> average_post_score st = 0 \<and> average_comment_score st = 0
        \<and> content_length_avg st = 0"
    by (simp add: generate_statistics_def Let_def average_def
        calculate_average_content_length_def)
qed (rule generate_statistics_total average_total calculate_average_content_length_total)+

text \<open>
  Claim C10. When the corpus has no posts and no comments, \<open>most_active_subreddit\<close> is
  \<open>None\<close> and \<open>top_subreddits\<close> is the empty list.
\<close>

theorem most_active_none_on_empty:
  "\<exists>st. generate_statistics [] [] = Inr st
      \<and> most_active_subreddit st = None \<and> top_subreddits st = []"
  by (simp add: generate_statistics_def Let_def average_def
      calculate_average_content_length_def subreddit_activity_def sort_reverse_def)

section \<open>Activity ranking\<close>

text \<open>The dictionary of the counting loop is the histogram of the tags.\<close>

lemma first_seen_snoc:
  "first_seen (xs @ [x]) = (if x \<in> set xs then first_seen xs else first_seen xs @ [x])"
  by (simp add: first_seen_def)

lemma set_first_seen: "set (first_seen xs) = set xs"
  by (simp add: first_seen_def)

lemma distinct_first_seen: "distinct (first_seen xs)"
  by (simp add: first_seen_def)

lemma count_activity_map:
  "distinct ks \<Longrightarrow>
   count_activity (map (\<lambda>u. (u, c u)) ks) t =
     (if t \<in> set ks then map (\<lambda>u. (u, if u = t then c u + 1 else c u)) ks
      else map (\<lambda>u. (u, c u)) ks @ [(t, 1)])"
  by (induction ks) auto

lemma count_activity_histogram: "count_activity (histogram tags) t = histogram (tags @ [t])"
proof (cases "t \<in> set tags")
  case True
  then show ?thesis
    using count_activity_map [OF distinct_first_seen, of "count_list tags" tags t]
    by (simp add: histogram_def first_seen_snoc set_first_seen)
next
  case False
  then have "count_list tags t = 0" by simp
  with False show ?thesis
    using count_activity_map [OF distinct_first_seen, of "count_list tags" tags t]
    by (auto simp: histogram_def first_seen_snoc set_first_seen)
qed

lemma foldl_count_activity: "foldl count_activity [] tags = histogram tags"
proof (induction tags rule: rev_induct)
  case Nil
  show ?case by (simp add: histogram_def first_seen_def)
next
  case (snoc t tags)
  then show ?case by (simp add: count_activity_histogram)
qed

lemma subreddit_activity_histogram: "subreddit_activity ps cs = histogram (corpus_tags ps cs)"
proof -
  have "subreddit_activity ps cs = foldl count_activity [] (map subreddit ps @ map subreddit cs)"
    by (simp add: subreddit_activity_def)
  also have "\<dots> = histogram (corpus_tags ps cs)"
    by (simp only: foldl_count_activity corpus_tags_def)
  finally show ?thesis .
qed

lemma generate_statistics_top:
  assumes "generate_statistics ps cs = Inr st"
  shows "top_subreddits st = take 10 (sort_reverse snd (histogram (corpus_tags ps cs)))"
    and "most_active_subreddit st =
           (case top_subreddits st of [] \<Rightarrow> None | first # _ \<Rightarrow> Some (fst first))"
  using assms
  by (auto simp: generate_statistics_def Let_def subreddit_activity_histogram split: sum.splits)

lemma descending_take: "descending f xs \<Longrightarrow> descending f (take n xs)"
proof -
  assume "descending f xs"
  then have "sorted_wrt (\<lambda>a b. f b \<le> f a) (take n xs @ drop n xs)"
    by (simp add: descending_def)
  then show ?thesis
    unfolding descending_def sorted_wrt_append by blast
qed

lemma descending_take_drop:
  "descending f xs \<Longrightarrow> p \<in> set (take n xs) \<Longrightarrow> q \<in> set (drop n xs) \<Longrightarrow> f q \<le> f p"
proof -
  assume "descending f xs" and p: "p \<in> set (take n xs)" and q: "q \<in> set (drop n xs)"
  then have "sorted_wrt (\<lambda>a b. f b \<le> f a) (take n xs @ drop n xs)"
    by (simp add: descending_def)
  with p q show ?thesis
    unfolding sorted_wrt_append by blast
qed

lemma histogram_nonempty: "tags \<noteq> [] \<Longrightarrow> histogram tags \<noteq> []"
  using set_first_seen [of tags] by (auto simp: histogram_def)

text \<open>
  Claim C9. For every corpus, \<open>top_subreddits\<close> holds at most 10 pairs of a tag and its
  activity count, ordered by count descending; they are the highest counts of the
  corpus; tags of equal count stand in the order in which each was first met while
  counting, all posts before all comments; and whenever the corpus is not empty,
  \<open>most_active_subreddit\<close> is the first tag of the list.
\<close>

theorem top_subreddits_ranking:
  "\<exists>st. generate_statistics ps cs = Inr st
      \<and> length (top_subreddits st) \<le> 10
      \<and> descending snd (top_subreddits st)
      \<and> set (top_subreddits st) \<subseteq> set (histogram (corpus_tags ps cs))
      \<and> (\<forall>n. prefix (filter (\<lambda>p. snd p = n) (top_subreddits st))
                     (filter (\<lambda>p. snd p = n) (histogram (corpus_tags ps cs))))
      \<and> (\<forall>p \<in> set (top_subreddits st).
            \<forall>q \<in> set (histogram (corpus_tags ps cs)) - set (top_subreddits st). snd q \<le> snd p)
      \<and> (ps \<noteq> [] \<or> cs \<noteq> [] \<longrightarrow>
            top_subreddits st \<noteq> []
            \<and> most_active_subreddit st = Some (fst (hd (top_subreddits st))))"
proof -
  define H where "H = histogram (corpus_tags ps cs)"
  define S where "S = sort_reverse snd H"
  obtain st where st: "generate_statistics ps cs = Inr st"
    using generate_statistics_total by blast
  have top: "top_subreddits st = take 10 S"
    using generate_statistics_top(1) [OF st] by (simp add: S_def H_def)
  have most: "most_active_subreddit st =
           (case top_subreddits st of [] \<Rightarrow> None | first # _ \<Rightarrow> Some (fst first))"
    by (rule generate_statistics_top(2) [OF st])
  have desc: "descending snd S"
    unfolding S_def by (rule sort_reverse_descending)
  have setS: "set S = set H"
    by (simp add: S_def set_sort_reverse)
  have 1: "length (top_subreddits st) \<le> 10" by (simp add: top)
  have 2: "descending snd (top_subreddits st)"
    unfolding top using desc by (rule descending_take)
  have 3: "set (top_subreddits st) \<subseteq> set H"
    unfolding top using set_take_subset [of 10 S] setS by simp
  have 4: "prefix (filter (\<lambda>p. snd p = n) (top_subreddits st)) (filter (\<lambda>p. snd p = n) H)" for n
  proof -
    have "prefix (filter (\<lambda>p. snd p = n) (take 10 S)) (filter (\<lambda>p. snd p = n) S)"
      by (rule filter_mono_prefix) (rule take_is_prefix)
    then show ?thesis
      by (simp only: top S_def sort_reverse_stable)
  qed
  have 5: "snd q \<le> snd p" if p: "p \<in> set (top_subreddits st)"
    and q: "q \<in> set H - set (top_subreddits st)" for p q
  proof -
    from q have "q \<in> set (take 10 S @ drop 10 S)" "q \<notin> set (take 10 S)"
      by (simp_all add: setS top)
    then have "q \<in> set (drop 10 S)"
      unfolding set_append by blast
    with desc p show ?thesis
      unfolding top by (intro descending_take_drop [of snd S p 10 q])
  qed
  have 6: "top_subreddits st \<noteq> [] \<and> most_active_subreddit st = Some (fst (hd (top_subreddits st)))"
    if ne: "ps \<noteq> [] \<or> cs \<noteq> []"
  proof -
    from ne have "corpus_tags ps cs \<noteq> []" by (auto simp: corpus_tags_def)
    then have "H \<noteq> []" unfolding H_def by (rule histogram_nonempty)
    then have "S \<noteq> []" using length_sort_reverse [of snd H] by (auto simp: S_def)
    then have t: "top_subreddits st \<noteq> []" by (simp add: top)
    then show ?thesis using most by (cases "top_subreddits st") simp_all
  qed
  show ?thesis
    using st 1 2 3 4 5 6 unfolding H_def by blast
qed

theorem top_subreddits_ranking_witness:
  "[scenario_post] \<noteq> []
   \<and> (\<exists>st. generate_statistics [scenario_post] [scenario_comment] = Inr st
          \<and> top_subreddits st \<noteq> []
          \<and> most_active_subreddit st = Some (fst (hd (top_subreddits st))))"
  using top_subreddits_ranking [of "[scenario_post]" "[scenario_comment]"] by blast

lemma histogram_example:
  "histogram [''b'', ''a'', ''b'', ''c'', ''a''] = [(''b'', 2), (''a'', 2), (''c'', 1)]"
  by code_simp

section \<open>Citation grounding\<close>

text \<open>
  Claim C8. Citation grounding does not depend on the analysis text: for a fixed corpus,
  any two analysis texts get the same citations.
\<close>

theorem extract_citations_analysis_independent:
  "extract_citations a1 ud = extract_citations a2 ud"
  by (simp add: extract_citations_def)

lemma post_citation_copy:
  "item_type p = Post \<and> title p \<noteq> None \<Longrightarrow> post_citation p = citation_of p"
  by (auto simp: post_citation_def citation_of_def dict_get_def)

lemma comment_citation_copy:
  "item_type c = Comment \<and> title c = None \<Longrightarrow> comment_citation c = citation_of c"
  by (simp add: comment_citation_def citation_of_def)

text \<open>The aggregator builds well-formed corpora, and the scenario's corpus is one.\<close>

lemma keep_valid_posts_well_formed:
  "list_all (\<lambda>p. item_type p = Post \<and> title p \<noteq> None) (keep_valid cfg (clean_post cfg) rs)"
  by (induction rs) (auto simp: clean_post_def Let_def)

lemma keep_valid_comments_well_formed:
  "list_all (\<lambda>p. item_type p = Comment \<and> title p = None) (keep_valid cfg (clean_comment cfg) rs)"
  by (induction rs) (auto simp: clean_comment_def Let_def)

lemma process_well_formed: "process_user_data cfg raw = Inr ud \<Longrightarrow> well_formed_corpus ud"
  using keep_valid_posts_well_formed [of cfg "raw_posts raw"]
    keep_valid_comments_well_formed [of cfg "raw_comments raw"]
  by (auto simp: process_user_data_def Let_def well_formed_corpus_def process_posts_def
      process_comments_def list_all_iff set_sort_reverse split: sum.splits)

lemma scenario_well_formed: "well_formed_corpus scenario_corpus"
  by (simp add: well_formed_corpus_def scenario_corpus_def scenario_post_def
      scenario_comment_def)

text \<open>
  Claim C6. For every corpus and every analysis text, citation grounding returns at most
  five citations: the first five of the posts followed by the comments; on a corpus
  with no posts and no comments it returns the empty list; and on a well-formed corpus
  each citation is a copy of its source item's kind, title, URL and tag.
\<close>

theorem extract_citations_first_five:
  "length (extract_citations a ud) \<le> 5
   \<and> extract_citations a ud
       = take 5 (map post_citation (posts ud) @ map comment_citation (comments ud))
   \<and> (posts ud = [] \<and> comments ud = [] \<longrightarrow> extract_citations a ud = [])
   \<and> (well_formed_corpus ud \<longrightarrow>
        extract_citations a ud = map citation_of (take 5 (posts ud @ comments ud)))"
proof (intro conjI impI)
  assume "well_formed_corpus ud"
  then have p: "map post_citation (posts ud) = map citation_of (posts ud)"
    and c: "map comment_citation (comments ud) = map citation_of (comments ud)"
    by (auto simp: well_formed_corpus_def list_all_iff post_citation_copy comment_citation_copy)
  have "extract_citations a ud
          = take 5 (map citation_of (posts ud) @ map citation_of (comments ud))"
    by (simp only: extract_citations_def Let_def p c)
  also have "\<dots> = take 5 (map citation_of (posts ud @ comments ud))"
    by (simp only: map_append)
  also have "\<dots> = map citation_of (take 5 (posts ud @ comments ud))"
    by (simp only: take_map)
  finally show "extract_citations a ud = map citation_of (take 5 (posts ud @ comments ud))" .
qed (simp_all add: extract_citations_def)

theorem extract_citations_first_five_witness:
  "posts empty_corpus = [] \<and> comments empty_corpus = []
   \<and> extract_citations ''x'' empty_corpus = []
   \<and> well_formed_corpus scenario_corpus
   \<and> extract_citations ''x'' scenario_corpus
       = map citation_of (take 5 (posts scenario_corpus @ comments scenario_corpus))"
proof -
  have e: "posts empty_corpus = [] \<and> comments empty_corpus = []"
    by (simp add: empty_corpus_def)
  show ?thesis
    using e scenario_well_formed extract_citations_first_five [of "''x''" empty_corpus]
      extract_citations_first_five [of "''x''" scenario_corpus]
    by blast
qed

section \<open>Persona assembly\<close>

lemma sublist_self: "sublist x x"
  by simp

lemma sublist_behind: "sublist x ys \<Longrightarrow> sublist x (a @ ys)"
  by (metis sublist_append)

lemma format_persona_complete:
  assumes b: "sec_basic_info secs = generate_basic_info g ud"
  shows "complete_document g ud secs (format_persona g secs ud)"
  unfolding complete_document_def format_persona_def all_facets_def facet_heading_def
    section_of_def list.pred_inject facet.case b [symmetric]
  by (intro conjI TrueI;
      (rule sublist_append_rightI | rule sublist_self | rule sublist_behind
        | rule list.pred_inject(1))+)

lemma ask_backend_served:
  "ask_backend g f role prompt fb ud = (r, calls) \<Longrightarrow>
   f \<in> set (map fst calls) \<or> r = \<lparr>analysis = fb, citations = []\<rparr>"
  by (auto simp: ask_backend_def Let_def split: sum.splits)

lemma persona_sections_fields:
  "sec_basic_info (fst (persona_sections g text ud)) = generate_basic_info g ud"
  "sec_demographics (fst (persona_sections g text ud)) = fst (analyze_demographics g text ud)"
  "sec_personality (fst (persona_sections g text ud)) = fst (analyze_personality g text ud)"
  "sec_interests (fst (persona_sections g text ud)) = fst (analyze_interests g text ud)"
  "sec_behaviors (fst (persona_sections g text ud)) = fst (analyze_behaviors g text ud)"
  "sec_motivations (fst (persona_sections g text ud)) = fst (analyze_motivations g text ud)"
  "sec_frustrations (fst (persona_sections g text ud)) = fst (analyze_frustrations g text ud)"
  by (simp_all add: persona_sections_def Let_def split: prod.splits)

lemma persona_sections_calls:
  "snd (persona_sections g text ud) =
     snd (analyze_demographics g text ud) @ snd (analyze_personality g text ud)
     @ snd (analyze_interests g text ud) @ snd (analyze_behaviors g text ud)
     @ snd (analyze_motivations g text ud) @ snd (analyze_frustrations g text ud)"
  by (simp add: persona_sections_def Let_def split: prod.splits)

lemma persona_sections_served:
  "list_all (served (snd (persona_sections g text ud)) (fst (persona_sections g text ud))) all_facets"
proof -
  have d: "Demographics \<in> set (map fst (snd (analyze_demographics g text ud)))
        \<or> fst (analyze_demographics g text ud) = \<lparr>analysis = ''Unable to analyze demographics'', citations = []\<rparr>"
    unfolding analyze_demographics_def by (rule ask_backend_served) simp
  have p: "Personality \<in> set (map fst (snd (analyze_personality g text ud)))
        \<or> fst (analyze_personality g text ud) = \<lparr>analysis = ''Unable to analyze personality'', citations = []\<rparr>"
    unfolding analyze_personality_def by (rule ask_backend_served) simp
  have i: "Interests \<in> set (map fst (snd (analyze_interests g text ud)))
        \<or> fst (analyze_interests g text ud) = \<lparr>analysis = ''Unable to analyze interests'', citations = []\<rparr>"
    unfolding analyze_interests_def Let_def by (rule ask_backend_served) simp
  have b: "Behaviors \<in> set (map fst (snd (analyze_behaviors g text ud)))
        \<or> fst (analyze_behaviors g text ud) = \<lparr>analysis = ''Unable to analyze behaviors'', citations = []\<rparr>"
    unfolding analyze_behaviors_def by (rule ask_backend_served) simp
  have m: "Motivations \<in> set (map fst (snd (analyze_motivations g text ud)))
        \<or> fst (analyze_motivations g text ud) = \<lparr>analysis = ''Unable to analyze motivations'', citations = []\<rparr>"
    unfolding analyze_motivations_def by (rule ask_backend_served) simp
  have f: "Frustrations \<in> set (map fst (snd (analyze_frustrations g text ud)))
        \<or> fst (analyze_frustrations g text ud) = \<lparr>analysis = ''Unable to analyze frustrations'', citations = []\<rparr>"
    unfolding analyze_frustrations_def by (rule ask_backend_served) simp
  show ?thesis
    using d p i b m f
    by (simp add: all_facets_def served_def section_of_def fallback_text_def
        persona_sections_fields persona_sections_calls) blast
qed

lemma generate_persona_nonempty:
  "extract_content_for_analysis (config g) ud = text \<Longrightarrow> text \<noteq> [] \<Longrightarrow>
   generate_persona g ud =
     (format_persona g (fst (persona_sections g text ud)) ud, snd (persona_sections g text ud))"
  by (simp add: generate_persona_def Let_def split: prod.splits)

lemma extract_content_empty:
  "posts ud = [] \<Longrightarrow> comments ud = [] \<Longrightarrow> extract_content_for_analysis cfg ud = []"
  by (simp add: extract_content_for_analysis_def)

text \<open>
  Claim C1, as stated: on a corpus with no posts and no comments persona generation
  still proceeds and a complete document is produced. It does not: the evidence text
  is empty, and \<open>generate_persona\<close> returns a fixed message at once, without a request to
  the backend; the result has no facet heading and no disclaimer.
\<close>

theorem generate_persona_empty_corpus_no_document:
  "posts empty_corpus = [] \<and> comments empty_corpus = []
   \<and> generate_persona scenario_generator empty_corpus
       = (''Unable to generate persona: No content available'', [])
   \<and> \<not> sublist (banner ''DEMOGRAPHICS'') (fst (generate_persona scenario_generator empty_corpus))
   \<and> \<not> sublist (disclaimer_block scenario_generator)
          (fst (generate_persona scenario_generator empty_corpus))"
  by code_simp

text \<open>
  Claim C1, amended: a corpus with no posts and no comments has an empty evidence text,
  and on an empty evidence text \<open>generate_persona\<close> returns the message
  \<open>Unable to generate persona: No content available\<close> and sends no request to the
  backend. Whenever the evidence text is not empty, a complete document is produced
  (header, basic-info block, the six facet sections, disclaimer), and each facet was
  either asked of the backend or given its fallback.
\<close>

theorem generate_persona_needs_evidence:
  "(posts ud = [] \<and> comments ud = [] \<longrightarrow> extract_content_for_analysis (config g) ud = [])
   \<and> (extract_content_for_analysis (config g) ud = [] \<longrightarrow>
        generate_persona g ud = (''Unable to generate persona: No content available'', []))
   \<and> (extract_content_for_analysis (config g) ud \<noteq> [] \<longrightarrow>
        (\<exists>secs calls.
           persona_sections g (extract_content_for_analysis (config g) ud) ud = (secs, calls)
           \<and> generate_persona g ud = (format_persona g secs ud, calls)
           \<and> complete_document g ud secs (format_persona g secs ud)
           \<and> list_all (served calls secs) all_facets))"
proof (intro conjI impI)
  assume "posts ud = [] \<and> comments ud = []"
  then show "extract_content_for_analysis (config g) ud = []"
    by (simp add: extract_content_empty)
next
  assume "extract_content_for_analysis (config g) ud = []"
  then show "generate_persona g ud = (''Unable to generate persona: No content available'', [])"
    by (simp add: generate_persona_def)
next
  define ev where "ev = extract_content_for_analysis (config g) ud"
  define secs where "secs = fst (persona_sections g ev ud)"
  define calls where "calls = snd (persona_sections g ev ud)"
  assume "extract_content_for_analysis (config g) ud \<noteq> []"
  then have ne: "ev \<noteq> []" by (simp add: ev_def)
  have 1: "persona_sections g ev ud = (secs, calls)"
    by (simp add: secs_def calls_def)
  have 2: "generate_persona g ud = (format_persona g secs ud, calls)"
    unfolding secs_def calls_def using ev_def [symmetric] ne by (rule generate_persona_nonempty)
  have 3: "complete_document g ud secs (format_persona g secs ud)"
    by (rule format_persona_complete) (simp add: secs_def persona_sections_fields)
  have 4: "list_all (served calls secs) all_facets"
    unfolding secs_def calls_def by (rule persona_sections_served)
  show "\<exists>secs calls.
           persona_sections g (extract_content_for_analysis (config g) ud) ud = (secs, calls)
           \<and> generate_persona g ud = (format_persona g secs ud, calls)
           \<and> complete_document g ud secs (format_persona g secs ud)
           \<and> list_all (served calls secs) all_facets"
    using 1 2 3 4 unfolding ev_def by blast
qed

lemma scenario_evidence:
  "extract_content_for_analysis (config scenario_generator) scenario_corpus \<noteq> []"
  by code_simp

theorem generate_persona_needs_evidence_witness:
  "posts empty_corpus = [] \<and> comments empty_corpus = []
   \<and> generate_persona scenario_generator empty_corpus
       = (''Unable to generate persona: No content available'', [])
   \<and> extract_content_for_analysis (config scenario_generator) scenario_corpus \<noteq> []
   \<and> (\<exists>secs calls.
         generate_persona scenario_generator scenario_corpus
           = (format_persona scenario_generator secs scenario_corpus, calls)
         \<and> complete_document scenario_generator scenario_corpus secs
             (format_persona scenario_generator secs scenario_corpus)
         \<and> list_all (served calls secs) all_facets)"
proof -
  have e: "posts empty_corpus = [] \<and> comments empty_corpus = []"
    by (simp add: empty_corpus_def)
  show ?thesis
    using e scenario_evidence
      generate_persona_needs_evidence [of empty_corpus scenario_generator]
      generate_persona_needs_evidence [of scenario_corpus scenario_generator]
    by blast
qed


lemma ask_backend_raises:
  "prompt = Inr p \<Longrightarrow> chat_completion g f \<lparr>system_role = role, user_prompt = p\<rparr> = Inl e \<Longrightarrow>
   fst (ask_backend g f role prompt fb ud) = \<lparr>analysis = fb, citations = []\<rparr>"
  by (simp add: ask_backend_def Let_def)

lemma ask_backend_succeeds:
  "prompt = Inr p \<Longrightarrow> chat_completion g f \<lparr>system_role = role, user_prompt = p\<rparr> = Inr a \<Longrightarrow>
   analysis (fst (ask_backend g f role prompt fb ud)) = a"
  by (simp add: ask_backend_def Let_def)

lemma ask_backend_other_facet:
  "f \<noteq> f' \<Longrightarrow>
   ask_backend (g\<lparr>chat_completion := (chat_completion g)(f' := b)\<rparr>) f role prompt fb ud
     = ask_backend g f role prompt fb ud"
  by (simp add: ask_backend_def Let_def split: sum.splits)

lemma other_facets_independent:
  "list_all
     (\<lambda>f. section_of f (fst (persona_sections
                (g\<lparr>chat_completion := (chat_completion g)(Personality := b)\<rparr>) ev ud))
          = section_of f (fst (persona_sections g ev ud)))
     [Demographics, Interests, Behaviors, Motivations, Frustrations]"
  by (simp add: section_of_def persona_sections_fields analyze_demographics_def
      analyze_interests_def analyze_behaviors_def analyze_motivations_def
      analyze_frustrations_def ask_backend_other_facet Let_def)

text \<open>
  Claim C7. When the backend call for the personality facet raises, the document still
  has all six facet sections; the personality section is the fallback text
  \<open>Unable to analyze personality\<close> with no citations; and the other five facets are
  unaffected: their sections are the same whatever the backend does for the personality
  facet, and each holds the backend's text when its own call succeeds.
\<close>

theorem personality_failure_isolated:
  assumes "extract_content_for_analysis (config g) ud = ev" and "ev \<noteq> []"
    and "personality_analysis g (take 3000 ev) = Inr p"
    and "chat_completion g Personality \<lparr>system_role = personality_role, user_prompt = p\<rparr> = Inl e"
  shows "\<exists>secs calls.
      generate_persona g ud = (format_persona g secs ud, calls)
      \<and> persona_sections g ev ud = (secs, calls)
      \<and> complete_document g ud secs (format_persona g secs ud)
      \<and> section_of Personality secs
          = \<lparr>analysis = ''Unable to analyze personality'', citations = []\<rparr>
      \<and> sublist (facet_section ''PERSONALITY TRAITS''
                   \<lparr>analysis = ''Unable to analyze personality'', citations = []\<rparr>)
                 (format_persona g secs ud)
      \<and> (\<forall>b. list_all
                (\<lambda>f. section_of f (fst (persona_sections
                           (g\<lparr>chat_completion := (chat_completion g)(Personality := b)\<rparr>) ev ud))
                     = section_of f secs)
                [Demographics, Interests, Behaviors, Motivations, Frustrations])
      \<and> (\<forall>q a. demographic_analysis g (take 3000 ev) = Inr q \<longrightarrow>
             chat_completion g Demographics \<lparr>system_role = demographics_role, user_prompt = q\<rparr> = Inr a \<longrightarrow>
             analysis (section_of Demographics secs) = a)
      \<and> (\<forall>q a. interests_analysis g (take 3000 ev)
                  (if subreddits ud \<noteq> [] then join '', '' (map name (subreddits ud)) else ''None'')
                  = Inr q \<longrightarrow>
             chat_completion g Interests \<lparr>system_role = interests_role, user_prompt = q\<rparr> = Inr a \<longrightarrow>
             analysis (section_of Interests secs) = a)
      \<and> (\<forall>q a. behavior_analysis g (take 3000 ev) = Inr q \<longrightarrow>
             chat_completion g Behaviors \<lparr>system_role = behaviors_role, user_prompt = q\<rparr> = Inr a \<longrightarrow>
             analysis (section_of Behaviors secs) = a)
      \<and> (\<forall>q a. motivations_analysis g (take 3000 ev) = Inr q \<longrightarrow>
             chat_completion g Motivations \<lparr>system_role = motivations_role, user_prompt = q\<rparr> = Inr a \<longrightarrow>
             analysis (section_of Motivations secs) = a)
      \<and> (\<forall>a. chat_completion g Frustrations
                  \<lparr>system_role = frustrations_role,
                   user_prompt = frustrations_prompt (take 3000 ev)\<rparr> = Inr a \<longrightarrow>
             analysis (section_of Frustrations secs) = a)"
proof -
  define secs where "secs = fst (persona_sections g ev ud)"
  define calls where "calls = snd (persona_sections g ev ud)"
  have 1: "generate_persona g ud = (format_persona g secs ud, calls)"
    unfolding secs_def calls_def using assms(1,2) by (rule generate_persona_nonempty)
  have 2: "persona_sections g ev ud = (secs, calls)"
    by (simp add: secs_def calls_def)
  have 3: "complete_document g ud secs (format_persona g secs ud)"
    by (rule format_persona_complete) (simp add: secs_def persona_sections_fields)
  have 4: "section_of Personality secs
          = \<lparr>analysis = ''Unable to analyze personality'', citations = []\<rparr>"
    using ask_backend_raises [OF assms(3,4)]
    by (simp add: secs_def section_of_def persona_sections_fields analyze_personality_def)
  have "sublist (facet_section (facet_heading Personality) (section_of Personality secs))
          (format_persona g secs ud)"
    using 3 by (simp add: complete_document_def all_facets_def)
  then have 5: "sublist (facet_section ''PERSONALITY TRAITS''
                   \<lparr>analysis = ''Unable to analyze personality'', citations = []\<rparr>)
                 (format_persona g secs ud)"
    by (simp add: 4 facet_heading_def)
  have 6: "list_all
                (\<lambda>f. section_of f (fst (persona_sections
                           (g\<lparr>chat_completion := (chat_completion g)(Personality := b)\<rparr>) ev ud))
                     = section_of f secs)
                [Demographics, Interests, Behaviors, Motivations, Frustrations]" for b
    unfolding secs_def by (rule other_facets_independent)
  have 7: "analysis (section_of Demographics secs) = a"
    if "demographic_analysis g (take 3000 ev) = Inr q"
      "chat_completion g Demographics \<lparr>system_role = demographics_role, user_prompt = q\<rparr> = Inr a"
    for q a
    using ask_backend_succeeds [OF that]
    by (simp add: secs_def section_of_def persona_sections_fields analyze_demographics_def)
  have 8: "analysis (section_of Interests secs) = a"
    if "interests_analysis g (take 3000 ev)
          (if subreddits ud \<noteq> [] then join '', '' (map name (subreddits ud)) else ''None'') = Inr q"
      "chat_completion g Interests \<lparr>system_role = interests_role, user_prompt = q\<rparr> = Inr a"
    for q a
    using ask_backend_succeeds [OF that]
    by (simp add: secs_def section_of_def persona_sections_fields analyze_interests_def Let_def)
  have 9: "analysis (section_of Behaviors secs) = a"
    if "behavior_analysis g (take 3000 ev) = Inr q"
      "chat_completion g Behaviors \<lparr>system_role = behaviors_role, user_prompt = q\<rparr> = Inr a"
    for q a
    using ask_backend_succeeds [OF that]
    by (simp add: secs_def section_of_def persona_sections_fields analyze_behaviors_def)
  have 10: "analysis (section_of Motivations secs) = a"
    if "motivations_analysis g (take 3000 ev) = Inr q"
      "chat_completion g Motivations \<lparr>system_role = motivations_role, user_prompt = q\<rparr> = Inr a"
    for q a
    using ask_backend_succeeds [OF that]
    by (simp add: secs_def section_of_def persona_sections_fields analyze_motivations_def)
  have 11: "analysis (section_of Frustrations secs) = a"
    if "chat_completion g Frustrations
          \<lparr>system_role = frustrations_role,
           user_prompt = frustrations_prompt (take 3000 ev)\<rparr> = Inr a"
    for a
    using ask_backend_succeeds [OF refl that]
    by (simp add: secs_def section_of_def persona_sections_fields analyze_frustrations_def)
  show ?thesis
    using 1 2 3 4 5 6 7 8 9 10 11 by blast
qed

theorem personality_failure_isolated_witness:
  "extract_content_for_analysis (config scenario_generator) scenario_corpus \<noteq> []
   \<and> chat_completion scenario_generator Personality
        \<lparr>system_role = personality_role,
         user_prompt = ''Personality of: ''
           @ take 3000 (extract_content_for_analysis (config scenario_generator) scenario_corpus)\<rparr>
       = Inl (Raised ''rate limit'')
   \<and> (\<exists>secs calls.
         generate_persona scenario_generator scenario_corpus
           = (format_persona scenario_generator secs scenario_corpus, calls)
         \<and> complete_document scenario_generator scenario_corpus secs
             (format_persona scenario_generator secs scenario_corpus)
         \<and> section_of Personality secs
             = \<lparr>analysis = ''Unable to analyze personality'', citations = []\<rparr>
         \<and> analysis (section_of Demographics secs) = ''Likely a developer.'')"
proof -
  let ?ev = "extract_content_for_analysis (config scenario_generator) scenario_corpus"
  have p: "personality_analysis scenario_generator (take 3000 ?ev)
             = Inr (''Personality of: '' @ take 3000 ?ev)"
    by (simp add: scenario_generator_def)
  have r: "chat_completion scenario_generator Personality
             \<lparr>system_role = personality_role, user_prompt = ''Personality of: '' @ take 3000 ?ev\<rparr>
           = Inl (Raised ''rate limit'')"
    by (simp add: scenario_generator_def)
  have d: "demographic_analysis scenario_generator (take 3000 ?ev)
             = Inr (''Demographics of: '' @ take 3000 ?ev)"
    by (simp add: scenario_generator_def)
  have s: "chat_completion scenario_generator Demographics
             \<lparr>system_role = demographics_role,
              user_prompt = ''Demographics of: '' @ take 3000 ?ev\<rparr>
           = Inr ''Likely a developer.''"
    by (simp add: scenario_generator_def)
  show ?thesis
    using scenario_evidence r d s
      personality_failure_isolated [OF refl scenario_evidence p r]
    by blast
qed

end
